theory Spec2Isabelle
  imports Complex_Main "HOL-Library.Sublist" "HOL-Library.AList"
begin

section \<open>The user-simulation harness of driftmgr (scripts/tools/user\_simulation.py)\<close>

text \<open>
  The harness drives the external \<open>driftmgr\<close> executable through a table of commands,
  judges every outcome, keeps pass/fail statistics and draws a progress bar. The
  development follows the source file top down: strings, the validator
  \<open>validate_command_result\<close>, the progress bar (\<open>LoadingBar\<close>, \<open>SimulationTUI\<close>), the
  process runner \<open>run_command\<close>, and the orchestrator.

  Conventions. Python \<open>str\<close> is \<open>string\<close>; characters outside ASCII are left alone by
  \<open>lower\<close>. Python \<open>int\<close> is \<open>int\<close>. A Python \<open>float\<close> is a rational, and the rounding of
  every floating-point operation is a parameter of the model. A raised exception is a
  value of \<open>py_exn\<close>; a function that can raise returns the state together with either
  the exception or its result.
\<close>

subsection \<open>Strings\<close>

text \<open>\<open>str.lower()\<close> on the ASCII letters.\<close>

definition lower_char :: "char \<Rightarrow> char" where
  "lower_char c =
     (case map_of (zip ''ABCDEFGHIJKLMNOPQRSTUVWXYZ'' ''abcdefghijklmnopqrstuvwxyz'') c of
        None \<Rightarrow> c
      | Some d \<Rightarrow> d)"

definition lower :: "string \<Rightarrow> string" where
  "lower s = map lower_char s"

text \<open>\<open>sub in s\<close> on strings: \<open>sub\<close> occurs as a contiguous piece of \<open>s\<close>.\<close>

fun py_in :: "string \<Rightarrow> string \<Rightarrow> bool" where
  "py_in sub [] = (sub = [])"
| "py_in sub (c # cs) = (prefix sub (c # cs) \<or> py_in sub cs)"

text \<open>\<open>' '.join(command)\<close>.\<close>

fun join_sp :: "string list \<Rightarrow> string" where
  "join_sp [] = []"
| "join_sp [w] = w"
| "join_sp (w # v # ws) = w @ '' '' @ join_sp (v # ws)"

subsection \<open>Exceptions\<close>

text \<open>
  The exceptions that the modelled code can raise. \<open>KeyboardInterrupt\<close> is the operator's
  interruption; it derives from \<open>BaseException\<close>, so \<open>except Exception\<close> does not catch it.
\<close>

datatype py_exn = ZeroDivisionError | IndexError | KeyboardInterrupt
  | TimeoutExpired | FileNotFoundError string | OtherException string

text \<open>
  \<open>str(e)\<close>. \<open>FileNotFoundError\<close> and \<open>OtherException\<close> (any other subclass of
  \<open>Exception\<close>) carry their message.
\<close>

fun str_exn :: "py_exn \<Rightarrow> string" where
  "str_exn ZeroDivisionError = ''division by zero''"
| "str_exn IndexError = ''list index out of range''"
| "str_exn KeyboardInterrupt = []"
| "str_exn TimeoutExpired = ''Command timed out''"
| "str_exn (FileNotFoundError m) = m"
| "str_exn (OtherException m) = m"

subsection \<open>Results, verdicts and statistics\<close>

text \<open>The dictionary \<open>result_data\<close> that \<open>run_command\<close> builds for one invocation.\<close>

record proc_result =
  command :: string
  return_code :: int
  stdout :: string
  stderr :: string
  duration :: rat
  success :: bool

text \<open>The dictionary \<open>validation\<close> that the validator returns.\<close>

record validation_dict =
  v_command :: string
  v_success :: bool
  test_passed :: bool
  test_result :: string
  validation_details :: "string list"
  expected_behavior :: string
  actual_behavior :: string

text \<open>One entry of \<open>test_summary['feature_results']\<close>.\<close>

record feature_stats =
  total_c :: int
  passed :: int
  failed :: int
  success_rate :: rat

text \<open>
  \<open>self.test_summary\<close>. The dictionary \<open>feature_results\<close> is an association list in
  insertion order; \<open>AList.update\<close> overwrites the entry of a present key in place and
  appends an absent one, as assignment to a Python \<open>dict\<close> does.
\<close>

record summary_dict =
  total_tests :: int
  passed_tests :: int
  failed_tests :: int
  skipped_tests :: int
  feature_results :: "(string \<times> feature_stats) list"

definition init_test_summary :: summary_dict where
  "init_test_summary =
     \<lparr>total_tests = 0, passed_tests = 0, failed_tests = 0, skipped_tests = 0,
      feature_results = []\<rparr>"

subsection \<open>The validator\<close>

text \<open>
  Every branch of the \<open>if\<close>/\<open>elif\<close> chain has the same shape: it sets
  \<open>expected_behavior\<close>, and then either marks the test passed and appends one detail, or
  appends the other detail.
\<close>

definition judge :: "string \<Rightarrow> bool \<Rightarrow> string \<Rightarrow> string \<Rightarrow> validation_dict \<Rightarrow> validation_dict" where
  "judge expected ok pass_detail fail_detail v =
     (if ok
      then v\<lparr>expected_behavior := expected, test_passed := True, test_result := ''PASSED'',
             validation_details := validation_details v @ [pass_detail]\<rparr>
      else v\<lparr>expected_behavior := expected,
             validation_details := validation_details v @ [fail_detail]\<rparr>)"

text \<open>Lines 288 to 386: the chain over the command text, in the order of the source.\<close>

definition category_rules :: "string \<Rightarrow> proc_result \<Rightarrow> validation_dict \<Rightarrow> validation_dict" where
  "category_rules cmd result v =
     (let out = lower (stdout result) in
      if py_in ''credentials'' cmd then
        judge ''Should detect or list credentials''
          (success result \<or> py_in ''credentials found'' out \<or> py_in ''help'' out)
          ''Credential command executed successfully''
          ''Credential command failed or returned unexpected output'' v
      else if py_in ''state'' cmd then
        judge ''Should handle state file operations''
          (success result \<or> py_in ''help'' out \<or> py_in ''usage'' out)
          ''State command executed successfully''
          ''State command failed or returned unexpected output'' v
      else if py_in ''discover'' cmd then
        judge ''Should attempt resource discovery''
          (success result \<or> py_in ''discovering'' out \<or> py_in ''found'' out)
          ''Discovery command executed successfully''
          ''Discovery command failed or returned unexpected output'' v
      else if py_in ''analyze'' cmd then
        judge ''Should perform drift analysis''
          (success result \<or> py_in ''analyzing'' out \<or> py_in ''drift'' out)
          ''Analysis command executed successfully''
          ''Analysis command failed or returned unexpected output'' v
      else if py_in ''monitor'' cmd \<or> py_in ''dashboard'' cmd then
        judge ''Should handle monitoring operations''
          (success result \<or> py_in ''monitoring'' out \<or> py_in ''dashboard'' out)
          ''Monitoring command executed successfully''
          ''Monitoring command failed or returned unexpected output'' v
      else if py_in ''remediate'' cmd then
        judge ''Should handle remediation operations''
          (success result \<or> py_in ''remediating'' out \<or> py_in ''dry-run'' out)
          ''Remediation command executed successfully''
          ''Remediation command failed or returned unexpected output'' v
      else if py_in ''config'' cmd \<or> py_in ''setup'' cmd then
        judge ''Should handle configuration operations''
          (success result \<or> py_in ''config'' out \<or> py_in ''setup'' out)
          ''Configuration command executed successfully''
          ''Configuration command failed or returned unexpected output'' v
      else if py_in ''report'' cmd \<or> py_in ''export'' cmd then
        judge ''Should handle reporting operations''
          (success result \<or> py_in ''report'' out \<or> py_in ''export'' out)
          ''Reporting command executed successfully''
          ''Reporting command failed or returned unexpected output'' v
      else if py_in ''plugin'' cmd \<or> py_in ''api'' cmd \<or> py_in ''webhook'' cmd then
        judge ''Should handle advanced features''
          (success result \<or> py_in ''plugin'' out \<or> py_in ''api'' out)
          ''Advanced feature command executed successfully''
          ''Advanced feature command failed or returned unexpected output'' v
      else if py_in ''invalid'' cmd \<or> py_in ''error'' cmd then
        judge ''Should handle errors gracefully''
          (\<not> success result \<and> (stderr result \<noteq> [] \<or> py_in ''error'' out))
          ''Error handling worked as expected''
          ''Error handling did not work as expected'' v
      else
        judge ''Should execute command successfully''
          (success result)
          ''Command executed successfully''
          ''Command failed to execute'' v)"

text \<open>
  Lines 388 to 413: the statistics. The last assignment divides by the entry's total; when
  that is zero Python raises after the counters have been written.
\<close>

definition new_feature_stats :: feature_stats where
  "new_feature_stats = \<lparr>total_c = 0, passed = 0, failed = 0, success_rate = 0\<rparr>"

definition update_test_summary ::
  "validation_dict \<Rightarrow> string \<Rightarrow> summary_dict \<Rightarrow> (py_exn + validation_dict) \<times> summary_dict" where
  "update_test_summary v feature ts =
     (let ts1 = ts\<lparr>total_tests := total_tests ts + 1\<rparr>;
          ts2 = (if test_passed v then ts1\<lparr>passed_tests := passed_tests ts1 + 1\<rparr>
                 else ts1\<lparr>failed_tests := failed_tests ts1 + 1\<rparr>);
          e0 = (case map_of (feature_results ts2) feature of
                  None \<Rightarrow> new_feature_stats
                | Some e \<Rightarrow> e);
          e1 = e0\<lparr>total_c := total_c e0 + 1\<rparr>;
          e2 = (if test_passed v then e1\<lparr>passed := passed e1 + 1\<rparr>
                else e1\<lparr>failed := failed e1 + 1\<rparr>)
      in if total_c e2 = 0
         then (Inl ZeroDivisionError,
               ts2\<lparr>feature_results := AList.update feature e2 (feature_results ts2)\<rparr>)
         else (Inr v,
               ts2\<lparr>feature_results :=
                     AList.update feature
                       (e2\<lparr>success_rate := of_int (passed e2) / of_int (total_c e2) * 100\<rparr>)
                       (feature_results ts2)\<rparr>))"

text \<open>The two tests on the captured standard error that come before the chain.\<close>

definition driftmgr_missing :: "string \<Rightarrow> bool" where
  "driftmgr_missing err = py_in ''driftmgr not available'' (lower err)"

definition executable_missing :: "string \<Rightarrow> bool" where
  "executable_missing err =
     (py_in ''file not found'' (lower err) \<or> py_in ''cannot find the file'' (lower err))"

definition validate_command_result ::
  "string \<Rightarrow> proc_result \<Rightarrow> string \<Rightarrow> summary_dict \<Rightarrow> (py_exn + validation_dict) \<times> summary_dict" where
  "validate_command_result cmd result feature ts =
     (let v = \<lparr>v_command = cmd, v_success = success result, test_passed = False,
               test_result = ''FAILED'', validation_details = [], expected_behavior = [],
               actual_behavior = []\<rparr>
      in if driftmgr_missing (stderr result)
         then (Inr (v\<lparr>expected_behavior := ''Should handle missing driftmgr gracefully'',
                       test_passed := True, test_result := ''PASSED'',
                       validation_details :=
                         validation_details v @ [''Command handled missing driftmgr gracefully''],
                       actual_behavior := ''Skipped command due to missing driftmgr''\<rparr>), ts)
         else if executable_missing (stderr result)
         then (Inr (v\<lparr>expected_behavior := ''Should handle missing executable gracefully'',
                       test_passed := True, test_result := ''PASSED'',
                       validation_details :=
                         validation_details v @ [''Command handled missing executable gracefully''],
                       actual_behavior := ''Executable not found - handled appropriately''\<rparr>), ts)
         else update_test_summary (category_rules cmd result v) feature ts)"

text \<open>A sequence of validator calls on one simulator; a caller that catches keeps the state.\<close>

fun validate_all :: "(string \<times> proc_result \<times> string) list \<Rightarrow> summary_dict \<Rightarrow> summary_dict" where
  "validate_all [] ts = ts"
| "validate_all ((cmd, result, feature) # calls) ts =
     validate_all calls (snd (validate_command_result cmd result feature ts))"

subsection \<open>The validator, as the specification words it\<close>

text \<open>
  The specification describes the validator as a table: rules in a fixed order, each with
  the substrings of the command text that select it and the keywords that let a failed
  exit status pass. These definitions follow that description; the theorems compare them
  with \<open>category_rules\<close>, which follows the source.
\<close>

datatype rule = Credentials | State | Discover | Analyze | Monitor | Remediate | Config
  | Report | Advanced | ErrorHandling | Default

definition spec_rule_order :: "(string list \<times> rule) list" where
  "spec_rule_order =
     [([''credentials''], Credentials),
      ([''state''], State),
      ([''discover''], Discover),
      ([''analyze''], Analyze),
      ([''monitor'', ''dashboard''], Monitor),
      ([''remediate''], Remediate),
      ([''config'', ''setup''], Config),
      ([''report'', ''export''], Report),
      ([''plugin'', ''api'', ''webhook''], Advanced),
      ([''invalid'', ''error''], ErrorHandling)]"

fun any_in :: "string list \<Rightarrow> string \<Rightarrow> bool" where
  "any_in [] s = False"
| "any_in (k # ks) s = (py_in k s \<or> any_in ks s)"

fun spec_select_rule :: "string \<Rightarrow> (string list \<times> rule) list \<Rightarrow> rule" where
  "spec_select_rule cmd [] = Default"
| "spec_select_rule cmd ((keys, r) # rest) =
     (if any_in keys cmd then r else spec_select_rule cmd rest)"

fun spec_keywords :: "rule \<Rightarrow> string list" where
  "spec_keywords Credentials = [''credentials found'', ''help'']"
| "spec_keywords State = [''help'', ''usage'']"
| "spec_keywords Discover = [''discovering'', ''found'']"
| "spec_keywords Analyze = [''analyzing'', ''drift'']"
| "spec_keywords Monitor = [''monitoring'', ''dashboard'']"
| "spec_keywords Remediate = [''remediating'', ''dry-run'']"
| "spec_keywords Config = [''config'', ''setup'']"
| "spec_keywords Report = [''report'', ''export'']"
| "spec_keywords Advanced = [''plugin'', ''api'']"
| "spec_keywords ErrorHandling = [''error'']"
| "spec_keywords Default = []"

definition spec_rule_passes :: "rule \<Rightarrow> proc_result \<Rightarrow> bool" where
  "spec_rule_passes rl r =
     (if rl = ErrorHandling
      then \<not> success r \<and> (stderr r \<noteq> [] \<or> py_in ''error'' (lower (stdout r)))
      else success r \<or> any_in (spec_keywords rl) (lower (stdout r)))"

text \<open>The text that each branch of the source writes into \<open>expected_behavior\<close>.\<close>

fun rule_expected :: "rule \<Rightarrow> string" where
  "rule_expected Credentials = ''Should detect or list credentials''"
| "rule_expected State = ''Should handle state file operations''"
| "rule_expected Discover = ''Should attempt resource discovery''"
| "rule_expected Analyze = ''Should perform drift analysis''"
| "rule_expected Monitor = ''Should handle monitoring operations''"
| "rule_expected Remediate = ''Should handle remediation operations''"
| "rule_expected Config = ''Should handle configuration operations''"
| "rule_expected Report = ''Should handle reporting operations''"
| "rule_expected Advanced = ''Should handle advanced features''"
| "rule_expected ErrorHandling = ''Should handle errors gracefully''"
| "rule_expected Default = ''Should execute command successfully''"

text \<open>
  A command text reaches the error-handling branch when none of the substrings tested
  before it occurs and \<open>invalid\<close> or \<open>error\<close> does.
\<close>

definition reaches_error_rule :: "string \<Rightarrow> bool" where
  "reaches_error_rule cmd =
     (\<not> any_in [''credentials'', ''state'', ''discover'', ''analyze'', ''monitor'', ''dashboard'',
                ''remediate'', ''config'', ''setup'', ''report'', ''export'', ''plugin'', ''api'',
                ''webhook''] cmd \<and>
      any_in [''invalid'', ''error''] cmd)"

subsection \<open>Invariants of the statistics\<close>

text \<open>
  The three equations of the specification: the session total, every feature entry, and
  the sum of the feature totals.
\<close>

definition stats_inv :: "summary_dict \<Rightarrow> bool" where
  "stats_inv ts =
     (total_tests ts = passed_tests ts + failed_tests ts \<and>
      list_all (\<lambda>(f, e). total_c e = passed e + failed e) (feature_results ts) \<and>
      sum_list (map (\<lambda>(f, e). total_c e) (feature_results ts)) = total_tests ts)"

text \<open>
  What the proofs need besides: a dictionary has every key once, and no counter is
  negative (so the division of the success rate is defined).
\<close>

definition stats_wf :: "summary_dict \<Rightarrow> bool" where
  "stats_wf ts =
     (stats_inv ts \<and> distinct (map fst (feature_results ts)) \<and>
      list_all (\<lambda>(f, e). 0 \<le> total_c e) (feature_results ts))"

subsection \<open>The progress bar\<close>

text \<open>
  Floating-point arithmetic. Every arithmetic operation on Python floats yields the exact
  result rounded to a double. The model computes the exact result in \<open>rat\<close> and applies a
  rounding function \<open>fl\<close>, which is a parameter: a theorem that holds for every \<open>fl\<close> holds for
  the rounding of the machine. \<open>int(x)\<close> on a float truncates toward zero.
\<close>

definition py_int :: "rat \<Rightarrow> int" where
  "py_int x = (if 0 \<le> x then \<lfloor>x\<rfloor> else \<lceil>x\<rceil>)"

text \<open>
  What one call of \<open>update\<close> writes on the terminal line: the values that the line is
  formatted from. \<open>ln_eta = None\<close> is the placeholder \<open>ETA: --:--\<close>. The bar is a list of
  cells, \<open>True\<close> for a filled one; a string repeated a negative number of times is empty.
\<close>

record progress_line =
  ln_filled_width :: int
  ln_bar :: "bool list"
  ln_percentage :: int
  ln_elapsed :: rat
  ln_eta :: "rat option"
  ln_title :: string

text \<open>The class \<open>LoadingBar\<close>; \<open>written\<close> collects the lines it has written so far.\<close>

record LoadingBar =
  total_steps :: int
  current_step :: int
  width :: int
  title :: string
  start_time :: rat
  step_titles :: "string list"
  current_step_title :: string
  written :: "progress_line list"

definition LoadingBar_init :: "rat \<Rightarrow> int \<Rightarrow> int \<Rightarrow> string \<Rightarrow> LoadingBar" where
  "LoadingBar_init now n w t =
     \<lparr>total_steps = n, current_step = 0, width = w, title = t, start_time = now,
      step_titles = [], current_step_title = [], written = []\<rparr>"

definition add_step :: "string \<Rightarrow> LoadingBar \<Rightarrow> LoadingBar" where
  "add_step t bar = bar\<lparr>step_titles := step_titles bar @ [t]\<rparr>"

text \<open>
  \<open>LoadingBar.update\<close>, lines 71 to 102. \<open>now\<close> is the reading of \<open>time.time()\<close>. The
  division by \<open>total_steps\<close> raises when that is zero, after the two fields are assigned.
\<close>

definition LoadingBar_update ::
  "(rat \<Rightarrow> rat) \<Rightarrow> rat \<Rightarrow> int \<Rightarrow> string \<Rightarrow> LoadingBar \<Rightarrow> py_exn option \<times> LoadingBar" where
  "LoadingBar_update fl now step step_title bar =
     (let bar1 = bar\<lparr>current_step := step, current_step_title := step_title\<rparr> in
      if total_steps bar1 = 0 then (Some ZeroDivisionError, bar1)
      else
        let progress = min (fl (of_int step / of_int (total_steps bar1))) 1;
            filled_width = py_int (fl (of_int (width bar1) * progress));
            bar_cells = replicate (nat filled_width) True @
                        replicate (nat (width bar1 - filled_width)) False;
            percentage = py_int (fl (progress * 100));
            elapsed_time = fl (now - start_time bar1);
            eta = (if progress > 0
                   then Some (fl (fl (elapsed_time / progress) * fl (1 - progress)))
                   else None)
        in (None,
            bar1\<lparr>written := written bar1 @
               [\<lparr>ln_filled_width = filled_width, ln_bar = bar_cells,
                 ln_percentage = percentage, ln_elapsed = elapsed_time, ln_eta = eta,
                 ln_title = step_title\<rparr>]\<rparr>))"

text \<open>Decimal digits of an integer, for the label of the bar.\<close>

function str_nat :: "nat \<Rightarrow> string" where
  "str_nat n =
     (if n < 10 then [''0123456789'' ! n]
      else str_nat (n div 10) @ [''0123456789'' ! (n mod 10)])"
  by pat_completeness auto
termination
  by (relation "measure id") auto

definition str_int :: "int \<Rightarrow> string" where
  "str_int i = (if i < 0 then ''-'' @ str_nat (nat (- i)) else str_nat (nat i))"

text \<open>The class \<open>SimulationTUI\<close>. The status lines that it prints above the bar are left out.\<close>

record SimulationTUI =
  loading_bar :: "LoadingBar option"
  current_feature :: string
  current_command :: string
  total_commands :: int
  completed_commands :: int

definition SimulationTUI_init :: SimulationTUI where
  "SimulationTUI_init =
     \<lparr>loading_bar = None, current_feature = [], current_command = [], total_commands = 0,
      completed_commands = 0\<rparr>"

definition feature_steps :: "string list" where
  "feature_steps =
     [''Credential Auto-Detection'', ''State File Detection'', ''Resource Discovery'',
      ''Drift Analysis'', ''Monitoring & Dashboard'', ''Remediation'', ''Configuration'',
      ''Reporting'', ''Advanced Features'', ''Error Handling'', ''Interactive Mode'']"

definition initialize_simulation :: "rat \<Rightarrow> int \<Rightarrow> SimulationTUI \<Rightarrow> SimulationTUI" where
  "initialize_simulation now n tui =
     tui\<lparr>total_commands := n, completed_commands := 0,
         loading_bar :=
           Some (fold add_step feature_steps
                   (LoadingBar_init now (int (length feature_steps)) 50
                      ''DriftMgr User Simulation''))\<rparr>"

definition update_feature_progress ::
  "(rat \<Rightarrow> rat) \<Rightarrow> rat \<Rightarrow> int \<Rightarrow> string \<Rightarrow> SimulationTUI \<Rightarrow> py_exn option \<times> SimulationTUI" where
  "update_feature_progress fl now feature_index feature_name tui =
     (case loading_bar tui of
        None \<Rightarrow> (None, tui)
      | Some bar \<Rightarrow>
          (let (e, bar') = LoadingBar_update fl now feature_index (''Testing: '' @ feature_name) bar
           in (e, tui\<lparr>current_feature := feature_name, loading_bar := Some bar'\<rparr>)))"

text \<open>
  \<open>update_command_progress\<close>, lines 162 to 179: the step handed to the bar is the percentage
  of completed commands.
\<close>

definition update_command_progress ::
  "(rat \<Rightarrow> rat) \<Rightarrow> rat \<Rightarrow> string \<Rightarrow> bool \<Rightarrow> SimulationTUI \<Rightarrow> py_exn option \<times> SimulationTUI" where
  "update_command_progress fl now cmd ok tui =
     (let tui1 = tui\<lparr>completed_commands := completed_commands tui + 1\<rparr> in
      case loading_bar tui1 of
        None \<Rightarrow> (None, tui1)
      | Some bar \<Rightarrow>
          if total_commands tui1 = 0 then (Some ZeroDivisionError, tui1)
          else
            (let progress = fl (fl (of_int (completed_commands tui1) / of_int (total_commands tui1)) * 100);
                 (e, bar') = LoadingBar_update fl now (py_int progress)
                               (current_feature tui1 @ '' ('' @ str_int (completed_commands tui1) @
                                ''/'' @ str_int (total_commands tui1) @ '')'') bar
             in (e, tui1\<lparr>loading_bar := Some bar'\<rparr>)))"

subsection \<open>The environment\<close>

text \<open>
  What \<open>subprocess.run\<close> does with one command: it returns a completed process (exit status,
  standard output, standard error) or raises.
\<close>

datatype proc_outcome = Completed int string string | Raises py_exn

text \<open>One entry of the trace of launched processes: the version probe, or a command.\<close>

datatype launch = Probe | Launch "string list"

text \<open>
  Everything outside the program is an oracle. The outcome of a launch and the reading of
  the clock depend on how many processes were launched before, so the same command may
  behave differently later. \<open>float_round\<close> is the rounding of a floating-point operation.
  \<open>region_files\<close> holds the enabled region names of the four JSON files, or \<open>None\<close> when a
  file is missing.
\<close>

record os_env =
  subprocess_run :: "nat \<Rightarrow> string list \<Rightarrow> int \<Rightarrow> proc_outcome"
  time_time :: "nat \<Rightarrow> rat"
  float_round :: "rat \<Rightarrow> rat"
  random_randint :: "int \<Rightarrow> int \<Rightarrow> int"
  random_sample :: "string list \<Rightarrow> int \<Rightarrow> string list"
  region_files :: "(string list \<times> string list \<times> string list \<times> string list) option"

subsection \<open>The simulator\<close>

text \<open>\<open>result_data\<close> once \<open>result_data['validation']\<close> is assigned.\<close>

record run_result = proc_result +
  validation :: validation_dict

text \<open>
  One entry of \<open>simulation_results\<close>. The time stamp, and the provider and regions that the
  discovery phase adds, are left out.
\<close>

record sim_record =
  rec_feature :: string
  rec_result :: run_result

record feature_summary_entry =
  fs_total_commands :: int
  fs_successful_commands :: int
  fs_failed_commands :: int
  avg_duration :: rat
  fs_total_duration :: rat
  test_success_rate :: rat

record sim_info =
  si_total_commands :: int
  si_duration :: rat
  si_successful_commands :: int
  si_failed_commands :: int

record report =
  simulation_info :: sim_info
  rp_test_summary :: summary_dict
  overall_success_rate :: rat
  feature_summary :: "(string \<times> feature_summary_entry) list"
  detailed_results :: "sim_record list"

text \<open>
  The object \<open>DriftMgrUserSimulator\<close>, together with what the run leaves outside it: the
  trace of launched processes and the report file. \<open>driftmgr_available = None\<close> says that the
  attribute \<open>_driftmgr_available\<close> is not set.
\<close>

record simulator =
  aws_regions :: "string list"
  azure_regions :: "string list"
  gcp_regions :: "string list"
  digitalocean_regions :: "string list"
  simulation_results :: "sim_record list"
  test_summary :: summary_dict
  tui :: SimulationTUI
  driftmgr_available :: "bool option"
  launches :: "launch list"
  report_file :: "report option"

definition load_regions ::
  "os_env \<Rightarrow> string list \<times> string list \<times> string list \<times> string list" where
  "load_regions os =
     (case region_files os of
        Some rs \<Rightarrow> rs
      | None \<Rightarrow>
          ([''us-east-1'', ''us-west-2'', ''eu-west-1'', ''ap-southeast-1''],
           [''eastus'', ''westus2'', ''northeurope'', ''southeastasia''],
           [''us-central1'', ''europe-west1'', ''asia-southeast1''],
           [''nyc1'', ''sfo2'', ''lon1'', ''sgp1'']))"

definition DriftMgrUserSimulator_init :: "os_env \<Rightarrow> simulator" where
  "DriftMgrUserSimulator_init os =
     (case load_regions os of
        (aws, azure, gcp, digitalocean) \<Rightarrow>
          \<lparr>aws_regions = aws, azure_regions = azure, gcp_regions = gcp,
           digitalocean_regions = digitalocean, simulation_results = [],
           test_summary = init_test_summary, tui = SimulationTUI_init,
           driftmgr_available = None, launches = [], report_file = None\<rparr>)"

definition clock :: "os_env \<Rightarrow> simulator \<Rightarrow> rat" where
  "clock os s = time_time os (length (launches s))"

subsection \<open>The process runner\<close>

text \<open>
  \<open>validate_driftmgr_availability\<close>, lines 417 to 439: the probe. Every \<open>Exception\<close> gives
  \<open>False\<close>; the operator's interruption is not caught.
\<close>

definition validate_driftmgr_availability :: "os_env \<Rightarrow> simulator \<Rightarrow> (py_exn + bool) \<times> simulator" where
  "validate_driftmgr_availability os s =
     (let out = subprocess_run os (length (launches s)) [''driftmgr'', ''--version''] 10;
          s1 = s\<lparr>launches := launches s @ [Probe]\<rparr>
      in case out of
           Completed rc so se \<Rightarrow> (Inr (rc = 0), s1)
         | Raises KeyboardInterrupt \<Rightarrow> (Inl KeyboardInterrupt, s1)
         | Raises e \<Rightarrow> (Inr False, s1))"

text \<open>\<open>result_data['validation'] = validation\<close>.\<close>

definition with_validation :: "proc_result \<Rightarrow> validation_dict \<Rightarrow> run_result" where
  "with_validation rd v =
     \<lparr>command = command rd, return_code = return_code rd, stdout = stdout rd,
      stderr = stderr rd, duration = duration rd, success = success rd, validation = v\<rparr>"

text \<open>
  The tail that every branch of \<open>run_command\<close> ends with: validate the result, attach the
  verdict, move the progress bar. \<open>use_verdict\<close> tells whether the bar is given the verdict
  or \<open>False\<close>.
\<close>

definition finish_command ::
  "os_env \<Rightarrow> proc_result \<Rightarrow> string \<Rightarrow> bool \<Rightarrow> simulator \<Rightarrow> (py_exn + run_result) \<times> simulator" where
  "finish_command os rd feature use_verdict s =
     (case validate_command_result (command rd) rd feature (test_summary s) of
        (Inl e, ts') \<Rightarrow> (Inl e, s\<lparr>test_summary := ts'\<rparr>)
      | (Inr v, ts') \<Rightarrow>
          (let s1 = s\<lparr>test_summary := ts'\<rparr>;
               (e, tui') = update_command_progress (float_round os) (clock os s1) (command rd)
                             (use_verdict \<and> test_passed v) (tui s1);
               s2 = s1\<lparr>tui := tui'\<rparr>
           in case e of
                Some ex \<Rightarrow> (Inl ex, s2)
              | None \<Rightarrow> (Inr (with_validation rd v), s2)))"

definition is_driftmgr :: "string list \<Rightarrow> bool" where
  "is_driftmgr cmd = (case cmd of [] \<Rightarrow> False | p # args \<Rightarrow> p = ''driftmgr'')"

text \<open>
  Lines 448 to 453: for a driftmgr command, probe once and remember the answer. The result
  says whether the process may be launched.
\<close>

definition availability_check :: "os_env \<Rightarrow> string list \<Rightarrow> simulator \<Rightarrow> (py_exn + bool) \<times> simulator" where
  "availability_check os cmd s =
     (if is_driftmgr cmd
      then (case driftmgr_available s of
              Some b \<Rightarrow> (Inr b, s)
            | None \<Rightarrow>
                (case validate_driftmgr_availability os s of
                   (Inl e, s1) \<Rightarrow> (Inl e, s1)
                 | (Inr b, s1) \<Rightarrow> (Inr b, s1\<lparr>driftmgr_available := Some b\<rparr>)))
      else (Inr True, s))"

text \<open>Lines 443 to 502: the body of the \<open>try\<close>.\<close>

definition try_body ::
  "os_env \<Rightarrow> string list \<Rightarrow> int \<Rightarrow> string \<Rightarrow> simulator \<Rightarrow> (py_exn + run_result) \<times> simulator" where
  "try_body os cmd timeout feature s =
     (let command_str = join_sp cmd;
          start_time = clock os s
      in case availability_check os cmd s of
           (Inl e, s1) \<Rightarrow> (Inl e, s1)
         | (Inr False, s1) \<Rightarrow>
             finish_command os
               \<lparr>command = command_str, return_code = - 1, stdout = [],
                stderr = ''DriftMgr not available - skipping command'', duration = 0,
                success = False\<rparr> feature True s1
         | (Inr True, s1) \<Rightarrow>
             (let out = subprocess_run os (length (launches s1)) cmd timeout;
                  s2 = s1\<lparr>launches := launches s1 @ [Launch cmd]\<rparr>
              in case out of
                   Raises e \<Rightarrow> (Inl e, s2)
                 | Completed rc so se \<Rightarrow>
                     finish_command os
                       \<lparr>command = command_str, return_code = rc, stdout = so, stderr = se,
                        duration = float_round os (clock os s2 - start_time),
                        success = (rc = 0)\<rparr> feature True s2))"

text \<open>
  Lines 504 to 553: the result that each \<open>except\<close> clause builds, in the order of the
  clauses. \<open>None\<close>: no clause matches, the exception goes on to the caller.
\<close>

fun except_result :: "string \<Rightarrow> int \<Rightarrow> py_exn \<Rightarrow> proc_result option" where
  "except_result command_str timeout TimeoutExpired =
     Some \<lparr>command = command_str, return_code = - 1, stdout = [],
           stderr = ''Command timed out'', duration = of_int timeout, success = False\<rparr>"
| "except_result command_str timeout (FileNotFoundError m) =
     Some \<lparr>command = command_str, return_code = - 1, stdout = [],
           stderr = ''Command not found: '' @ m, duration = 0, success = False\<rparr>"
| "except_result command_str timeout KeyboardInterrupt = None"
| "except_result command_str timeout e =
     Some \<lparr>command = command_str, return_code = - 1, stdout = [],
           stderr = str_exn e, duration = 0, success = False\<rparr>"

definition run_command ::
  "os_env \<Rightarrow> string list \<Rightarrow> int \<Rightarrow> string \<Rightarrow> simulator \<Rightarrow> (py_exn + run_result) \<times> simulator" where
  "run_command os cmd timeout feature s =
     (case try_body os cmd timeout feature s of
        (Inr r, s1) \<Rightarrow> (Inr r, s1)
      | (Inl e, s1) \<Rightarrow>
          (case except_result (join_sp cmd) timeout e of
             None \<Rightarrow> (Inl e, s1)
           | Some rd \<Rightarrow> finish_command os rd feature False s1))"

subsection \<open>The phases\<close>

definition credential_commands :: "string list list" where
  "credential_commands =
     [[''driftmgr'', ''credentials'', ''auto-detect''],
      [''driftmgr'', ''credentials'', ''list''],
      [''driftmgr'', ''credentials'', ''help'']]"

definition state_file_commands :: "string list list" where
  "state_file_commands =
     [[''driftmgr'', ''state'', ''discover''],
      [''driftmgr'', ''state'', ''discover'', ''--recursive''],
      [''driftmgr'', ''state'', ''discover'', ''--pattern'', ''*.tfstate''],
      [''driftmgr'', ''state'', ''discover'', ''--pattern'', ''*.tfstate.backup''],
      [''driftmgr'', ''state'', ''discover'', ''--directory'', ''.''],
      [''driftmgr'', ''state'', ''discover'', ''--directory'', ''./terraform''],
      [''driftmgr'', ''state'', ''discover'', ''--directory'', ''./states''],
      [''driftmgr'', ''state'', ''analyze''],
      [''driftmgr'', ''state'', ''analyze'', ''--format'', ''json''],
      [''driftmgr'', ''state'', ''analyze'', ''--format'', ''table''],
      [''driftmgr'', ''state'', ''analyze'', ''--output'', ''state_analysis.json''],
      [''driftmgr'', ''state'', ''analyze'', ''--validate''],
      [''driftmgr'', ''state'', ''analyze'', ''--check-consistency''],
      [''driftmgr'', ''state'', ''validate''],
      [''driftmgr'', ''state'', ''validate'', ''--strict''],
      [''driftmgr'', ''state'', ''validate'', ''--check-resources''],
      [''driftmgr'', ''state'', ''validate'', ''--check-modules''],
      [''driftmgr'', ''state'', ''validate'', ''--check-outputs''],
      [''driftmgr'', ''state'', ''compare''],
      [''driftmgr'', ''state'', ''compare'', ''--live''],
      [''driftmgr'', ''state'', ''compare'', ''--provider'', ''aws''],
      [''driftmgr'', ''state'', ''compare'', ''--provider'', ''azure''],
      [''driftmgr'', ''state'', ''compare'', ''--region'', ''us-east-1''],
      [''driftmgr'', ''state'', ''compare'', ''--output'', ''state_comparison.json''],
      [''driftmgr'', ''state'', ''list''],
      [''driftmgr'', ''state'', ''info''],
      [''driftmgr'', ''state'', ''backup''],
      [''driftmgr'', ''state'', ''restore''],
      [''driftmgr'', ''state'', ''cleanup''],
      [''driftmgr'', ''state'', ''migrate''],
      [''driftmgr'', ''state'', ''import''],
      [''driftmgr'', ''state'', ''export''],
      [''driftmgr'', ''state'', ''export'', ''--format'', ''json''],
      [''driftmgr'', ''state'', ''export'', ''--format'', ''terraform''],
      [''driftmgr'', ''state'', ''export'', ''--format'', ''cloudformation''],
      [''driftmgr'', ''state'', ''drift''],
      [''driftmgr'', ''state'', ''drift'', ''--detect''],
      [''driftmgr'', ''state'', ''drift'', ''--analyze''],
      [''driftmgr'', ''state'', ''drift'', ''--report''],
      [''driftmgr'', ''state'', ''drift'', ''--severity'', ''high''],
      [''driftmgr'', ''state'', ''drift'', ''--severity'', ''medium''],
      [''driftmgr'', ''state'', ''drift'', ''--severity'', ''low''],
      [''driftmgr'', ''state'', ''sync''],
      [''driftmgr'', ''state'', ''sync'', ''--force''],
      [''driftmgr'', ''state'', ''sync'', ''--dry-run''],
      [''driftmgr'', ''state'', ''sync'', ''--provider'', ''aws''],
      [''driftmgr'', ''state'', ''sync'', ''--provider'', ''azure''],
      [''driftmgr'', ''state'', ''health''],
      [''driftmgr'', ''state'', ''health'', ''--check''],
      [''driftmgr'', ''state'', ''health'', ''--report''],
      [''driftmgr'', ''state'', ''health'', ''--fix''],
      [''driftmgr'', ''state'', ''monitor''],
      [''driftmgr'', ''state'', ''monitor'', ''--start''],
      [''driftmgr'', ''state'', ''monitor'', ''--stop''],
      [''driftmgr'', ''state'', ''monitor'', ''--status''],
      [''driftmgr'', ''state'', ''monitor'', ''--watch''],
      [''driftmgr'', ''state'', ''report''],
      [''driftmgr'', ''state'', ''report'', ''--format'', ''json''],
      [''driftmgr'', ''state'', ''report'', ''--format'', ''html''],
      [''driftmgr'', ''state'', ''report'', ''--format'', ''pdf''],
      [''driftmgr'', ''state'', ''report'', ''--output'', ''state_report.json''],
      [''driftmgr'', ''state'', ''report'', ''--include-resources''],
      [''driftmgr'', ''state'', ''report'', ''--include-drift''],
      [''driftmgr'', ''state'', ''report'', ''--include-health''],
      [''driftmgr'', ''state'', ''history''],
      [''driftmgr'', ''state'', ''history'', ''--days'', ''7''],
      [''driftmgr'', ''state'', ''history'', ''--days'', ''30''],
      [''driftmgr'', ''state'', ''audit''],
      [''driftmgr'', ''state'', ''audit'', ''--compliance''],
      [''driftmgr'', ''state'', ''audit'', ''--security''],
      [''driftmgr'', ''state'', ''debug''],
      [''driftmgr'', ''state'', ''debug'', ''--verbose''],
      [''driftmgr'', ''state'', ''debug'', ''--show-details''],
      [''driftmgr'', ''state'', ''troubleshoot''],
      [''driftmgr'', ''state'', ''troubleshoot'', ''--fix''],
      [''driftmgr'', ''state'', ''config''],
      [''driftmgr'', ''state'', ''config'', ''--show''],
      [''driftmgr'', ''state'', ''config'', ''--set''],
      [''driftmgr'', ''state'', ''config'', ''--reset''],
      [''driftmgr'', ''state'', ''help''],
      [''driftmgr'', ''state'', ''help'', ''discover''],
      [''driftmgr'', ''state'', ''help'', ''analyze''],
      [''driftmgr'', ''state'', ''help'', ''validate''],
      [''driftmgr'', ''state'', ''help'', ''compare''],
      [''driftmgr'', ''state'', ''help'', ''drift''],
      [''driftmgr'', ''state'', ''help'', ''sync''],
      [''driftmgr'', ''state'', ''help'', ''health''],
      [''driftmgr'', ''state'', ''help'', ''monitor''],
      [''driftmgr'', ''state'', ''help'', ''report''],
      [''driftmgr'', ''state'', ''help'', ''history''],
      [''driftmgr'', ''state'', ''help'', ''audit''],
      [''driftmgr'', ''state'', ''help'', ''debug''],
      [''driftmgr'', ''state'', ''help'', ''troubleshoot''],
      [''driftmgr'', ''state'', ''help'', ''config'']]"

definition analysis_commands :: "string list list" where
  "analysis_commands =
     [[''driftmgr'', ''analyze'', ''--provider'', ''aws''],
      [''driftmgr'', ''analyze'', ''--provider'', ''azure''],
      [''driftmgr'', ''analyze'', ''--all-providers''],
      [''driftmgr'', ''analyze'', ''--format'', ''json''],
      [''driftmgr'', ''analyze'', ''--format'', ''table''],
      [''driftmgr'', ''analyze'', ''--output'', ''drift_report.json''],
      [''driftmgr'', ''analyze'', ''--severity'', ''high''],
      [''driftmgr'', ''analyze'', ''--severity'', ''medium''],
      [''driftmgr'', ''analyze'', ''--severity'', ''low'']]"

definition monitoring_commands :: "string list list" where
  "monitoring_commands =
     [[''driftmgr'', ''monitor'', ''--start''],
      [''driftmgr'', ''monitor'', ''--status''],
      [''driftmgr'', ''monitor'', ''--stop''],
      [''driftmgr'', ''dashboard'', ''--start''],
      [''driftmgr'', ''dashboard'', ''--port'', ''8080''],
      [''driftmgr'', ''dashboard'', ''--host'', ''localhost''],
      [''driftmgr'', ''status''],
      [''driftmgr'', ''health'']]"

definition remediation_commands :: "string list list" where
  "remediation_commands =
     [[''driftmgr'', ''remediate'', ''--dry-run''],
      [''driftmgr'', ''remediate'', ''--auto''],
      [''driftmgr'', ''remediate'', ''--interactive''],
      [''driftmgr'', ''remediate'', ''--provider'', ''aws''],
      [''driftmgr'', ''remediate'', ''--provider'', ''azure''],
      [''driftmgr'', ''generate'', ''--terraform''],
      [''driftmgr'', ''generate'', ''--cloudformation''],
      [''driftmgr'', ''apply'', ''--plan'']]"

definition config_commands :: "string list list" where
  "config_commands =
     [[''driftmgr'', ''config'', ''--show''],
      [''driftmgr'', ''config'', ''--init''],
      [''driftmgr'', ''config'', ''--validate''],
      [''driftmgr'', ''config'', ''--backup''],
      [''driftmgr'', ''config'', ''--restore''],
      [''driftmgr'', ''setup'', ''--interactive''],
      [''driftmgr'', ''setup'', ''--auto''],
      [''driftmgr'', ''validate'', ''--config'']]"

definition reporting_commands :: "string list list" where
  "reporting_commands =
     [[''driftmgr'', ''report'', ''--format'', ''json''],
      [''driftmgr'', ''report'', ''--format'', ''csv''],
      [''driftmgr'', ''report'', ''--format'', ''html''],
      [''driftmgr'', ''report'', ''--format'', ''pdf''],
      [''driftmgr'', ''export'', ''--type'', ''resources''],
      [''driftmgr'', ''export'', ''--type'', ''drift''],
      [''driftmgr'', ''export'', ''--type'', ''remediation''],
      [''driftmgr'', ''history'', ''--days'', ''7''],
      [''driftmgr'', ''history'', ''--days'', ''30''],
      [''driftmgr'', ''audit'', ''--compliance'']]"

definition advanced_commands :: "string list list" where
  "advanced_commands =
     [[''driftmgr'', ''plugin'', ''--list''],
      [''driftmgr'', ''plugin'', ''--install''],
      [''driftmgr'', ''plugin'', ''--update''],
      [''driftmgr'', ''api'', ''--start''],
      [''driftmgr'', ''api'', ''--stop''],
      [''driftmgr'', ''api'', ''--status''],
      [''driftmgr'', ''webhook'', ''--test''],
      [''driftmgr'', ''webhook'', ''--list''],
      [''driftmgr'', ''schedule'', ''--list''],
      [''driftmgr'', ''schedule'', ''--create''],
      [''driftmgr'', ''backup'', ''--create''],
      [''driftmgr'', ''backup'', ''--restore''],
      [''driftmgr'', ''migrate'', ''--state''],
      [''driftmgr'', ''sync'', ''--force'']]"

definition error_commands :: "string list list" where
  "error_commands =
     [[''driftmgr'', ''discover'', ''invalid-provider''],
      [''driftmgr'', ''discover'', ''aws'', ''invalid-region''],
      [''driftmgr'', ''analyze'', ''--invalid-flag''],
      [''driftmgr'', ''remediate'', ''--invalid-option''],
      [''driftmgr'', ''config'', ''--invalid-path''],
      [''driftmgr'', ''invalid-command''],
      [''driftmgr'', ''discover'', ''aws'', ''--invalid-flag''],
      [''driftmgr'', ''analyze'', ''--provider'', ''invalid''],
      [''driftmgr'', ''monitor'', ''--invalid-port''],
      [''driftmgr'', ''dashboard'', ''--invalid-host''],
      [''driftmgr'', ''state'', ''discover'', ''--invalid-pattern''],
      [''driftmgr'', ''state'', ''analyze'', ''--invalid-format''],
      [''driftmgr'', ''state'', ''validate'', ''--invalid-option''],
      [''driftmgr'', ''state'', ''compare'', ''--invalid-provider''],
      [''driftmgr'', ''state'', ''drift'', ''--invalid-severity'']]"

definition interactive_commands :: "string list list" where
  "interactive_commands =
     [[''driftmgr'', ''discover'', ''aws'', ''us-east-1''],
      [''driftmgr'', ''discover'', ''azure'', ''eastus''],
      [''driftmgr'', ''analyze'', ''--provider'', ''aws''],
      [''driftmgr'', ''monitor'', ''--start''],
      [''driftmgr'', ''dashboard'', ''--port'', ''8080''],
      [''driftmgr'', ''remediate'', ''--dry-run''],
      [''driftmgr'', ''report'', ''--format'', ''json''],
      [''driftmgr'', ''config'', ''--show''],
      [''driftmgr'', ''state'', ''discover''],
      [''driftmgr'', ''state'', ''analyze''],
      [''driftmgr'', ''state'', ''validate''],
      [''driftmgr'', ''state'', ''compare'', ''--live''],
      [''driftmgr'', ''state'', ''drift'', ''--detect''],
      [''driftmgr'', ''state'', ''sync'', ''--dry-run''],
      [''driftmgr'', ''state'', ''health'', ''--check''],
      [''driftmgr'', ''state'', ''report'', ''--format'', ''json'']]"

text \<open>The loop of every phase: run a command, append its record, stop at an exception.\<close>

fun run_commands ::
  "os_env \<Rightarrow> string list list \<Rightarrow> int \<Rightarrow> string \<Rightarrow> simulator \<Rightarrow> py_exn option \<times> simulator" where
  "run_commands os [] timeout feature s = (None, s)"
| "run_commands os (c # cs) timeout feature s =
     (case run_command os c timeout feature s of
        (Inl e, s1) \<Rightarrow> (Some e, s1)
      | (Inr r, s1) \<Rightarrow>
          run_commands os cs timeout feature
            (s1\<lparr>simulation_results :=
                  simulation_results s1 @ [\<lparr>rec_feature = feature, rec_result = r\<rparr>]\<rparr>))"

definition feature_progress :: "os_env \<Rightarrow> int \<Rightarrow> string \<Rightarrow> simulator \<Rightarrow> py_exn option \<times> simulator" where
  "feature_progress os feature_index feature_name s =
     (let (e, tui') = update_feature_progress (float_round os) (clock os s) feature_index
                        feature_name (tui s)
      in (e, s\<lparr>tui := tui'\<rparr>))"

definition run_phase ::
  "os_env \<Rightarrow> int \<Rightarrow> string \<Rightarrow> string list list \<Rightarrow> int \<Rightarrow> string \<Rightarrow> simulator \<Rightarrow>
   py_exn option \<times> simulator" where
  "run_phase os feature_index feature_name cmds timeout feature s =
     (case feature_progress os feature_index feature_name s of
        (Some e, s1) \<Rightarrow> (Some e, s1)
      | (None, s1) \<Rightarrow> run_commands os cmds timeout feature s1)"

definition simulate_credential_auto_detection :: "os_env \<Rightarrow> simulator \<Rightarrow> py_exn option \<times> simulator" where
  "simulate_credential_auto_detection os =
     run_phase os 0 ''Credential Auto-Detection'' credential_commands 60 ''credential_auto_detection''"

definition simulate_state_file_detection :: "os_env \<Rightarrow> simulator \<Rightarrow> py_exn option \<times> simulator" where
  "simulate_state_file_detection os =
     run_phase os 1 ''State File Detection'' state_file_commands 90 ''state_file_detection''"

text \<open>
  The discovery phase draws one to three regions of every provider that has any. The first
  of them is read by index, which raises on an empty selection.
\<close>

definition discovery_patterns :: "string \<Rightarrow> string \<Rightarrow> string list \<Rightarrow> string list list" where
  "discovery_patterns provider first_region selected_regions =
     [[''driftmgr'', ''discover'', provider, first_region],
      [''driftmgr'', ''discover''] @ selected_regions,
      [''driftmgr'', ''discover'', ''--provider'', provider, ''--region'', first_region],
      [''driftmgr'', ''discover'', provider, ''--all-regions'']]"

fun discover_providers ::
  "os_env \<Rightarrow> (string \<times> string list) list \<Rightarrow> simulator \<Rightarrow> py_exn option \<times> simulator" where
  "discover_providers os [] s = (None, s)"
| "discover_providers os ((provider, regions) # rest) s =
     (if regions = [] then discover_providers os rest s
      else
        (let num_regions = random_randint os 1 (min 3 (int (length regions)));
             selected_regions = random_sample os regions num_regions
         in case selected_regions of
              [] \<Rightarrow> (Some IndexError, s)
            | first_region # others \<Rightarrow>
                (case run_commands os (discovery_patterns provider first_region selected_regions)
                        120 ''resource_discovery'' s of
                   (Some e, s1) \<Rightarrow> (Some e, s1)
                 | (None, s1) \<Rightarrow> discover_providers os rest s1)))"

definition simulate_discovery_with_random_regions ::
  "os_env \<Rightarrow> simulator \<Rightarrow> py_exn option \<times> simulator" where
  "simulate_discovery_with_random_regions os s =
     (case feature_progress os 2 ''Resource Discovery'' s of
        (Some e, s1) \<Rightarrow> (Some e, s1)
      | (None, s1) \<Rightarrow>
          discover_providers os
            [(''aws'', aws_regions s1), (''azure'', azure_regions s1), (''gcp'', gcp_regions s1),
             (''digitalocean'', digitalocean_regions s1)] s1)"

definition simulate_analysis_features :: "os_env \<Rightarrow> simulator \<Rightarrow> py_exn option \<times> simulator" where
  "simulate_analysis_features os =
     run_phase os 3 ''Drift Analysis'' analysis_commands 90 ''drift_analysis''"

definition simulate_monitoring_features :: "os_env \<Rightarrow> simulator \<Rightarrow> py_exn option \<times> simulator" where
  "simulate_monitoring_features os =
     run_phase os 4 ''Monitoring & Dashboard'' monitoring_commands 60 ''monitoring''"

definition simulate_remediation_features :: "os_env \<Rightarrow> simulator \<Rightarrow> py_exn option \<times> simulator" where
  "simulate_remediation_features os =
     run_phase os 5 ''Remediation'' remediation_commands 120 ''remediation''"

definition simulate_configuration_features :: "os_env \<Rightarrow> simulator \<Rightarrow> py_exn option \<times> simulator" where
  "simulate_configuration_features os =
     run_phase os 6 ''Configuration'' config_commands 60 ''configuration''"

definition simulate_reporting_features :: "os_env \<Rightarrow> simulator \<Rightarrow> py_exn option \<times> simulator" where
  "simulate_reporting_features os =
     run_phase os 7 ''Reporting'' reporting_commands 60 ''reporting''"

definition simulate_advanced_features :: "os_env \<Rightarrow> simulator \<Rightarrow> py_exn option \<times> simulator" where
  "simulate_advanced_features os =
     run_phase os 8 ''Advanced Features'' advanced_commands 60 ''advanced''"

definition simulate_error_handling :: "os_env \<Rightarrow> simulator \<Rightarrow> py_exn option \<times> simulator" where
  "simulate_error_handling os =
     run_phase os 9 ''Error Handling'' error_commands 60 ''error_handling''"

definition simulate_interactive_mode :: "os_env \<Rightarrow> simulator \<Rightarrow> py_exn option \<times> simulator" where
  "simulate_interactive_mode os =
     run_phase os 10 ''Interactive Mode'' interactive_commands 60 ''interactive_mode''"

text \<open>Statements in sequence: the first exception ends the sequence.\<close>

fun in_sequence ::
  "(simulator \<Rightarrow> py_exn option \<times> simulator) list \<Rightarrow> simulator \<Rightarrow> py_exn option \<times> simulator" where
  "in_sequence [] s = (None, s)"
| "in_sequence (step # steps) s =
     (case step s of
        (Some e, s1) \<Rightarrow> (Some e, s1)
      | (None, s1) \<Rightarrow> in_sequence steps s1)"

definition simulation_phases :: "os_env \<Rightarrow> (simulator \<Rightarrow> py_exn option \<times> simulator) list" where
  "simulation_phases os =
     [simulate_credential_auto_detection os,
      simulate_state_file_detection os,
      simulate_discovery_with_random_regions os,
      simulate_analysis_features os,
      simulate_monitoring_features os,
      simulate_remediation_features os,
      simulate_configuration_features os,
      simulate_reporting_features os,
      simulate_advanced_features os,
      simulate_error_handling os,
      simulate_interactive_mode os]"

subsection \<open>The report\<close>

text \<open>The loop of lines 1045 to 1064 for one record.\<close>

definition new_feature_summary :: feature_summary_entry where
  "new_feature_summary =
     \<lparr>fs_total_commands = 0, fs_successful_commands = 0, fs_failed_commands = 0,
      avg_duration = 0, fs_total_duration = 0, test_success_rate = 0\<rparr>"

definition count_record ::
  "os_env \<Rightarrow> (string \<times> feature_summary_entry) list \<Rightarrow> sim_record \<Rightarrow>
   (string \<times> feature_summary_entry) list" where
  "count_record os fsum rec =
     (let e0 = (case map_of fsum (rec_feature rec) of
                  None \<Rightarrow> new_feature_summary
                | Some e \<Rightarrow> e);
          e1 = e0\<lparr>fs_total_commands := fs_total_commands e0 + 1,
                  fs_total_duration :=
                    float_round os (fs_total_duration e0 + duration (rec_result rec))\<rparr>;
          e2 = (if success (rec_result rec)
                then e1\<lparr>fs_successful_commands := fs_successful_commands e1 + 1\<rparr>
                else e1\<lparr>fs_failed_commands := fs_failed_commands e1 + 1\<rparr>)
      in AList.update (rec_feature rec) e2 fsum)"

text \<open>The loop of lines 1067 to 1072 for one feature.\<close>

definition average_entry ::
  "os_env \<Rightarrow> summary_dict \<Rightarrow> string \<times> feature_summary_entry \<Rightarrow> string \<times> feature_summary_entry" where
  "average_entry os ts fe =
     (case fe of
        (f, e) \<Rightarrow>
          (let e1 = (if fs_total_commands e > 0
                     then e\<lparr>avg_duration :=
                              float_round os (fs_total_duration e / of_int (fs_total_commands e))\<rparr>
                     else e);
               e2 = (case map_of (feature_results ts) f of
                       None \<Rightarrow> e1
                     | Some st \<Rightarrow> e1\<lparr>test_success_rate := success_rate st\<rparr>)
           in (f, e2)))"

text \<open>
  \<open>generate_simulation_report\<close>, lines 1014 to 1101. The report is written to the file at
  line 1075; the log line 1084 then divides by the number of executed commands.
\<close>

definition generate_simulation_report :: "os_env \<Rightarrow> simulator \<Rightarrow> (py_exn + report) \<times> simulator" where
  "generate_simulation_report os s =
     (let total_commands_n = int (length (simulation_results s));
          successful_commands = int (length (filter (\<lambda>r. success (rec_result r)) (simulation_results s)));
          failed_commands = total_commands_n - successful_commands;
          total_duration = foldl (\<lambda>acc r. float_round os (acc + duration (rec_result r))) 0
                             (simulation_results s);
          total_tests_n = total_tests (test_summary s);
          passed_tests_n = passed_tests (test_summary s);
          overall = (if total_tests_n > 0
                     then float_round os
                            (float_round os (of_int passed_tests_n / of_int total_tests_n) * 100)
                     else 0);
          rep = \<lparr>simulation_info =
                   \<lparr>si_total_commands = total_commands_n, si_duration = total_duration,
                    si_successful_commands = successful_commands,
                    si_failed_commands = failed_commands\<rparr>,
                 rp_test_summary = test_summary s,
                 overall_success_rate = overall,
                 feature_summary =
                   map (average_entry os (test_summary s))
                     (foldl (count_record os) [] (simulation_results s)),
                 detailed_results = simulation_results s\<rparr>;
          s1 = s\<lparr>report_file := Some rep\<rparr>
      in if total_commands_n = 0 then (Inl ZeroDivisionError, s1) else (Inr rep, s1))"

subsection \<open>The orchestrator\<close>

text \<open>
  \<open>run_full_simulation\<close>, lines 1103 to 1159: the number of commands announced to the
  progress bar, the phases, the report. Both \<open>except\<close> clauses return \<open>None\<close>: for the
  operator's interruption and for any other exception of the phases or of the report.
\<close>

definition planned_commands :: int where
  "planned_commands = 3 + 94 + 16 + 9 + 8 + 8 + 8 + 10 + 14 + 15 + 16"

definition start_tui :: "os_env \<Rightarrow> simulator \<Rightarrow> simulator" where
  "start_tui os s = s\<lparr>tui := initialize_simulation (clock os s) planned_commands (tui s)\<rparr>"

definition run_phases :: "os_env \<Rightarrow> simulator \<Rightarrow> py_exn option \<times> simulator" where
  "run_phases os s = in_sequence (simulation_phases os) s"

definition run_full_simulation :: "os_env \<Rightarrow> simulator \<Rightarrow> report option \<times> simulator" where
  "run_full_simulation os s =
     (case run_phases os (start_tui os s) of
        (Some e, s1) \<Rightarrow> (None, s1)
      | (None, s1) \<Rightarrow>
          (case generate_simulation_report os s1 of
             (Inl e, s2) \<Rightarrow> (None, s2)
           | (Inr rep, s2) \<Rightarrow> (Some rep, s2)))"


subsection \<open>Three environments\<close>


text \<open>
  Every process exits with status 0 and prints nothing, and the operator interrupts the third
  launch: after the probe and the first command, during the second command.
\<close>

definition interrupt_second_command :: os_env where
  "interrupt_second_command =
     \<lparr>subprocess_run = (\<lambda>n argv t. if n = 2 then Raises KeyboardInterrupt else Completed 0 [] []),
      time_time = (\<lambda>n. 0), float_round = (\<lambda>x. x),
      random_randint = (\<lambda>a b. a), random_sample = (\<lambda>xs k. take (nat k) xs),
      region_files = None\<rparr>"


subsection \<open>Observations used by the properties\<close>

text \<open>How often the version probe was launched.\<close>

definition probe_count :: "simulator \<Rightarrow> nat" where
  "probe_count s = length (filter (\<lambda>l. l = Probe) (launches s))"

text \<open>The percentages that the bar has shown, oldest first.\<close>

definition shown_percentages :: "SimulationTUI \<Rightarrow> int list" where
  "shown_percentages t =
     (case loading_bar t of
        None \<Rightarrow> []
      | Some bar \<Rightarrow> map ln_percentage (written bar))"

text \<open>
  The states in which neither the validator nor the progress bar can divide by zero: the
  statistics are well formed, and a bar that exists has a total and the number of commands
  is set.
\<close>

definition tui_ready :: "SimulationTUI \<Rightarrow> bool" where
  "tui_ready t =
     (case loading_bar t of
        None \<Rightarrow> True
      | Some bar \<Rightarrow> total_commands t \<noteq> 0 \<and> total_steps bar \<noteq> 0)"


text \<open>A sequence of \<open>run_command\<close> calls on one simulator, each with its own arguments.\<close>

fun run_many ::
  "os_env \<Rightarrow> (string list \<times> int \<times> string) list \<Rightarrow> simulator \<Rightarrow> simulator" where
  "run_many os [] s = s"
| "run_many os ((cmd, timeout, feature) # calls) s =
     run_many os calls (snd (run_command os cmd timeout feature s))"

text \<open>
  \<open>tracked k s\<close>: either nothing is remembered and the probe ran \<open>k\<close> times (the count at the
  start), or an answer is remembered and it ran once more.
\<close>

definition tracked :: "nat \<Rightarrow> simulator \<Rightarrow> bool" where
  "tracked k s =
     ((driftmgr_available s = None \<and> probe_count s = k) \<or>
      (driftmgr_available s \<noteq> None \<and> probe_count s = k + 1))"

text \<open>
  What a step of the session does to the probe count and to the report file. The first
  argument tells whether the step ended without an exception.
\<close>

definition probe_step :: "nat \<Rightarrow> simulator \<Rightarrow> bool \<Rightarrow> simulator \<Rightarrow> bool" where
  "probe_step k s normal s' =
     (report_file s' = report_file s \<and>
      (tracked k s \<longrightarrow>
         probe_count s \<le> probe_count s' \<and> probe_count s' \<le> k + 1 \<and>
         (normal \<longrightarrow> tracked k s')))"

subsection \<open>The progress updates of a session\<close>

text \<open>
  The two kinds of call that the session makes on its \<open>SimulationTUI\<close>: one
  \<open>update_feature_progress\<close> at the start of a phase, one \<open>update_command_progress\<close> at the
  end of every \<open>run_command\<close>.
\<close>

datatype tui_call = FeatureProgress int string | CommandProgress string bool

fun tui_calls :: "(rat \<Rightarrow> rat) \<Rightarrow> rat \<Rightarrow> tui_call list \<Rightarrow> SimulationTUI \<Rightarrow> SimulationTUI" where
  "tui_calls fl tm [] t = t"
| "tui_calls fl tm (FeatureProgress i name # cs) t =
     tui_calls fl tm cs (snd (update_feature_progress fl tm i name t))"
| "tui_calls fl tm (CommandProgress c ok # cs) t =
     tui_calls fl tm cs (snd (update_command_progress fl tm c ok t))"

text \<open>
  The calls of the first two phases and the first call of the third, in the order in which
  \<open>run_full_simulation\<close> makes them.
\<close>

definition first_phases_calls :: "tui_call list" where
  "first_phases_calls =
     FeatureProgress 0 ''Credential Auto-Detection'' #
     map (\<lambda>c. CommandProgress (join_sp c) True) credential_commands @
     FeatureProgress 1 ''State File Detection'' #
     map (\<lambda>c. CommandProgress (join_sp c) True) state_file_commands @
     [FeatureProgress 2 ''Resource Discovery'']"

section \<open>Properties of the validator\<close>

lemma sum_list_update:
  fixes g :: "'v \<Rightarrow> int"
  assumes "distinct (map fst xs)"
  shows "sum_list (map (\<lambda>(f, e). g e) (AList.update k v xs)) =
         sum_list (map (\<lambda>(f, e). g e) xs) + g v - (case map_of xs k of None \<Rightarrow> 0 | Some e \<Rightarrow> g e)"
  using assms
proof (induction xs)
  case Nil
  then show ?case by simp
next
  case (Cons p xs)
  obtain a b where p: "p = (a, b)" by (cases p)
  show ?case
  proof (cases "a = k")
    case True
    with Cons.prems p have "map_of xs k = None"
      by (simp add: map_of_eq_None_iff)
    with True p show ?thesis by simp
  next
    case False
    with Cons p show ?thesis by simp
  qed
qed

lemma list_all_update:
  assumes "list_all P xs" and "P (k, v)"
  shows "list_all P (AList.update k v xs)"
  using assms by (induction xs) auto

lemma list_all_map_of:
  assumes "list_all P xs" and "map_of xs k = Some e"
  shows "P (k, e)"
  using assms by (auto simp: list_all_iff dest: map_of_SomeD)

lemma update_test_summary_wf:
  assumes "stats_wf ts"
  shows "stats_wf (snd (update_test_summary v feature ts))"
proof (cases "map_of (feature_results ts) feature")
  case None
  with assms show ?thesis
    by (auto simp: stats_wf_def stats_inv_def update_test_summary_def Let_def new_feature_stats_def
        sum_list_update list_all_update distinct_update)
next
  case (Some e)
  with assms have "total_c e = passed e + failed e" "0 \<le> total_c e"
    using list_all_map_of[of "\<lambda>(f, e). total_c e = passed e + failed e" "feature_results ts" feature e]
      list_all_map_of[of "\<lambda>(f, e). 0 \<le> total_c e" "feature_results ts" feature e]
    by (simp_all add: stats_wf_def stats_inv_def)
  with Some assms show ?thesis
    by (auto simp: stats_wf_def stats_inv_def update_test_summary_def Let_def
        sum_list_update list_all_update distinct_update)
qed

lemma update_test_summary_returns:
  assumes "stats_wf ts"
  shows "fst (update_test_summary v feature ts) = Inr v"
proof (cases "map_of (feature_results ts) feature")
  case None
  then show ?thesis
    by (simp add: update_test_summary_def Let_def new_feature_stats_def)
next
  case (Some e)
  with assms have "0 \<le> total_c e"
    using list_all_map_of[of "\<lambda>(f, e). 0 \<le> total_c e" "feature_results ts" feature e]
    by (simp add: stats_wf_def)
  with Some show ?thesis
    by (simp add: update_test_summary_def Let_def)
qed

lemma validate_command_result_wf:
  assumes "stats_wf ts"
  shows "stats_wf (snd (validate_command_result cmd r feature ts))"
  using assms by (simp add: validate_command_result_def Let_def update_test_summary_wf)

lemma validate_all_wf: "stats_wf ts \<Longrightarrow> stats_wf (validate_all calls ts)"
  by (induction calls arbitrary: ts) (auto simp: validate_command_result_wf)

lemma init_wf: "stats_wf init_test_summary"
  by (simp add: stats_wf_def stats_inv_def init_test_summary_def)

text \<open>
  C1. After every call of the validator on a simulator that started from the constructor's
  statistics, the session total is the sum of passed and failed, every feature entry's
  total is the sum of its passed and failed, and the feature totals add up to the session
  total.
\<close>

theorem stats_invariant: "stats_inv (validate_all calls init_test_summary)"
  using validate_all_wf[OF init_wf] by (simp add: stats_wf_def)

subsection \<open>The missing-tool rule comes first\<close>



subsection \<open>Which rule judges a command\<close>

lemma spec_select_rule_chain:
  "spec_select_rule cmd spec_rule_order =
     (if py_in ''credentials'' cmd then Credentials
      else if py_in ''state'' cmd then State
      else if py_in ''discover'' cmd then Discover
      else if py_in ''analyze'' cmd then Analyze
      else if py_in ''monitor'' cmd \<or> py_in ''dashboard'' cmd then Monitor
      else if py_in ''remediate'' cmd then Remediate
      else if py_in ''config'' cmd \<or> py_in ''setup'' cmd then Config
      else if py_in ''report'' cmd \<or> py_in ''export'' cmd then Report
      else if py_in ''plugin'' cmd \<or> py_in ''api'' cmd \<or> py_in ''webhook'' cmd then Advanced
      else if py_in ''invalid'' cmd \<or> py_in ''error'' cmd then ErrorHandling
      else Default)"
  unfolding spec_rule_order_def spec_select_rule.simps any_in.simps
  by (simp only: simp_thms)

lemma judge_expected: "expected_behavior (judge e ok p f v) = e"
  by (simp add: judge_def)

lemma judge_passed: "test_passed (judge e ok p f v) = (ok \<or> test_passed v)"
  by (simp add: judge_def)

lemma spec_rule_passes_simps:
  "spec_rule_passes Credentials r = (success r \<or> py_in ''credentials found'' (lower (stdout r)) \<or> py_in ''help'' (lower (stdout r)))"
  "spec_rule_passes State r = (success r \<or> py_in ''help'' (lower (stdout r)) \<or> py_in ''usage'' (lower (stdout r)))"
  "spec_rule_passes Discover r = (success r \<or> py_in ''discovering'' (lower (stdout r)) \<or> py_in ''found'' (lower (stdout r)))"
  "spec_rule_passes Analyze r = (success r \<or> py_in ''analyzing'' (lower (stdout r)) \<or> py_in ''drift'' (lower (stdout r)))"
  "spec_rule_passes Monitor r = (success r \<or> py_in ''monitoring'' (lower (stdout r)) \<or> py_in ''dashboard'' (lower (stdout r)))"
  "spec_rule_passes Remediate r = (success r \<or> py_in ''remediating'' (lower (stdout r)) \<or> py_in ''dry-run'' (lower (stdout r)))"
  "spec_rule_passes Config r = (success r \<or> py_in ''config'' (lower (stdout r)) \<or> py_in ''setup'' (lower (stdout r)))"
  "spec_rule_passes Report r = (success r \<or> py_in ''report'' (lower (stdout r)) \<or> py_in ''export'' (lower (stdout r)))"
  "spec_rule_passes Advanced r = (success r \<or> py_in ''plugin'' (lower (stdout r)) \<or> py_in ''api'' (lower (stdout r)))"
  "spec_rule_passes ErrorHandling r = (\<not> success r \<and> (stderr r \<noteq> [] \<or> py_in ''error'' (lower (stdout r))))"
  "spec_rule_passes Default r = success r"
  by (simp_all add: spec_rule_passes_def)

lemma category_rules_expected:
  "expected_behavior (category_rules cmd r v) = rule_expected (spec_select_rule cmd spec_rule_order)"
  unfolding spec_select_rule_chain category_rules_def Let_def
  by (simp only: if_distrib[of expected_behavior] if_distrib[of rule_expected]
        judge_expected rule_expected.simps)

lemma category_rules_passed:
  "test_passed (category_rules cmd r v) =
     (spec_rule_passes (spec_select_rule cmd spec_rule_order) r \<or> test_passed v)"
  unfolding spec_select_rule_chain category_rules_def Let_def
  by (simp only: if_distrib[of test_passed] if_distrib[of "\<lambda>R. spec_rule_passes R r"]
        if_distrib[of "\<lambda>b. b \<or> test_passed v"] judge_passed spec_rule_passes_simps)

lemma validate_command_result_chain:
  assumes "\<not> driftmgr_missing (stderr r)" and "\<not> executable_missing (stderr r)"
    and "stats_wf ts"
  shows "fst (validate_command_result cmd r feature ts) =
         Inr (category_rules cmd r
               \<lparr>v_command = cmd, v_success = success r, test_passed = False,
                test_result = ''FAILED'', validation_details = [], expected_behavior = [],
                actual_behavior = []\<rparr>)"
  using assms by (simp add: validate_command_result_def Let_def update_test_summary_returns)

text \<open>
  C10. When the missing-tool rule does not apply, the branch that judges a command is the
  first entry of the fixed order whose substring occurs in the command text, and the default
  rule when none does. The verdict does not depend on the feature tag or on the statistics.
\<close>

theorem rule_selected_by_command_text:
  assumes "\<not> driftmgr_missing (stderr r)" and "\<not> executable_missing (stderr r)"
    and "stats_wf ts"
  shows "\<exists>v. fst (validate_command_result cmd r feature ts) = Inr v \<and>
           expected_behavior v = rule_expected (spec_select_rule cmd spec_rule_order) \<and>
           test_passed v = spec_rule_passes (spec_select_rule cmd spec_rule_order) r \<and>
           (\<forall>feature' ts'. stats_wf ts' \<longrightarrow>
              fst (validate_command_result cmd r feature' ts') = Inr v)"
  using assms
  by (simp add: validate_command_result_chain category_rules_expected category_rules_passed)

theorem rule_selected_by_command_text_witness:
  "\<not> driftmgr_missing ''unknown provider'' \<and> \<not> executable_missing ''unknown provider'' \<and>
   stats_wf init_test_summary \<and>
   (\<exists>v. fst (validate_command_result ''driftmgr discover invalid-provider''
              \<lparr>command = ''driftmgr discover invalid-provider'', return_code = 1, stdout = [],
               stderr = ''unknown provider'', duration = 0, success = False\<rparr>
              ''error_handling'' init_test_summary) = Inr v \<and>
        expected_behavior v = ''Should attempt resource discovery'' \<and> \<not> test_passed v)"
proof -
  let ?r = "\<lparr>command = ''driftmgr discover invalid-provider'', return_code = 1, stdout = [],
             stderr = ''unknown provider'', duration = 0, success = False\<rparr>"
  have h1: "\<not> driftmgr_missing (stderr ?r)"
    by (simp add: driftmgr_missing_def lower_def lower_char_def)
  have h2: "\<not> executable_missing (stderr ?r)"
    by (simp add: executable_missing_def lower_def lower_char_def)
  have sel: "spec_select_rule ''driftmgr discover invalid-provider'' spec_rule_order = Discover"
    by (simp add: spec_rule_order_def)
  have pass: "\<not> spec_rule_passes Discover ?r"
    by (simp add: spec_rule_passes_def lower_def)
  from rule_selected_by_command_text[OF h1 h2 init_wf,
      of "''driftmgr discover invalid-provider''" "''error_handling''"]
  show ?thesis
    using h1 h2 init_wf sel pass by auto
qed

subsection \<open>The error-handling rule\<close>

text \<open>
  The claim C5 read with the category as the feature tag fails: the first command of the
  error-handling phase carries the text \<open>discover\<close>, so the discovery rule judges it, and an
  exit status 1 with a message on standard error is a FAILED verdict.
\<close>

theorem error_category_counterexample:
  "\<not> driftmgr_missing ''unknown provider'' \<and> \<not> executable_missing ''unknown provider'' \<and>
   fst (validate_command_result ''driftmgr discover invalid-provider''
          \<lparr>command = ''driftmgr discover invalid-provider'', return_code = 1, stdout = [],
           stderr = ''unknown provider'', duration = 0, success = False\<rparr>
          ''error_handling'' init_test_summary) =
   Inr \<lparr>v_command = ''driftmgr discover invalid-provider'', v_success = False,
        test_passed = False, test_result = ''FAILED'',
        validation_details = [''Discovery command failed or returned unexpected output''],
        expected_behavior = ''Should attempt resource discovery'', actual_behavior = []\<rparr>"
  by (simp add: driftmgr_missing_def executable_missing_def lower_def lower_char_def
      validate_command_result_def category_rules_def judge_def update_test_summary_def
      init_test_summary_def new_feature_stats_def Let_def)

lemma reaches_error_rule_select:
  "reaches_error_rule cmd \<Longrightarrow> spec_select_rule cmd spec_rule_order = ErrorHandling"
  by (simp add: reaches_error_rule_def spec_rule_order_def)

text \<open>
  C5, amended. For a command whose text reaches the error-handling branch (it contains
  \<open>invalid\<close> or \<open>error\<close> and none of the substrings tested earlier) and whose standard error does
  not trigger the missing-tool rule, the verdict is PASSED exactly when the exit status is not
  zero and either standard error is not empty or standard output contains \<open>error\<close> in any
  letter case. The result's \<open>success\<close> flag is the test \<open>return_code == 0\<close>, as
  \<open>run_command\<close> sets it.
\<close>

theorem error_rule_verdict:
  assumes "reaches_error_rule cmd"
    and "\<not> driftmgr_missing (stderr r)" and "\<not> executable_missing (stderr r)"
    and "success r = (return_code r = 0)" and "stats_wf ts"
  shows "\<exists>v. fst (validate_command_result cmd r feature ts) = Inr v \<and>
           test_passed v =
             (return_code r \<noteq> 0 \<and> (stderr r \<noteq> [] \<or> py_in ''error'' (lower (stdout r))))"
  using assms
  by (simp add: validate_command_result_chain category_rules_passed reaches_error_rule_select
      spec_rule_passes_simps)

theorem error_rule_verdict_witness:
  "reaches_error_rule ''driftmgr invalid-command'' \<and>
   \<not> driftmgr_missing ''unknown command'' \<and> \<not> executable_missing ''unknown command'' \<and>
   stats_wf init_test_summary \<and>
   (\<exists>v. fst (validate_command_result ''driftmgr invalid-command''
              \<lparr>command = ''driftmgr invalid-command'', return_code = 1, stdout = [],
               stderr = ''unknown command'', duration = 0, success = False\<rparr>
              ''error_handling'' init_test_summary) = Inr v \<and> test_passed v)"
proof -
  let ?r = "\<lparr>command = ''driftmgr invalid-command'', return_code = 1, stdout = [],
             stderr = ''unknown command'', duration = 0, success = False\<rparr>"
  have h0: "reaches_error_rule ''driftmgr invalid-command''"
    by (simp add: reaches_error_rule_def)
  have h1: "\<not> driftmgr_missing (stderr ?r)"
    by (simp add: driftmgr_missing_def lower_def lower_char_def)
  have h2: "\<not> executable_missing (stderr ?r)"
    by (simp add: executable_missing_def lower_def lower_char_def)
  have h3: "success ?r = (return_code ?r = 0)"
    by simp
  from error_rule_verdict[OF h0 h1 h2 h3 init_wf, of "''error_handling''"]
  show ?thesis
    using h0 h1 h2 init_wf by auto
qed

section \<open>Properties of the progress bar\<close>





section \<open>Properties of the report\<close>

text \<open>
  C7. The overall success rate of a session without commands is guarded and is 0, and the
  report is written to the file; the log line that follows divides the successful commands
  by the number of commands, which is zero, so \<open>generate_simulation_report\<close> raises
  \<open>ZeroDivisionError\<close> and \<open>run_full_simulation\<close> would return \<open>None\<close>.
\<close>

theorem empty_session_report_raises:
  "fst (generate_simulation_report os (DriftMgrUserSimulator_init os)) = Inl ZeroDivisionError \<and>
   map_option overall_success_rate
     (report_file (snd (generate_simulation_report os (DriftMgrUserSimulator_init os)))) = Some 0"
  by (simp add: generate_simulation_report_def DriftMgrUserSimulator_init_def Let_def
      init_test_summary_def split: prod.splits)

section \<open>Properties of the process runner\<close>






lemma probe_effect:
  "validate_driftmgr_availability os s = (x, s1) \<Longrightarrow>
     s1 = s\<lparr>launches := launches s @ [Probe]\<rparr> \<and>
     (\<forall>e. x = Inl e \<longrightarrow>
        e = KeyboardInterrupt \<and>
        subprocess_run os (length (launches s)) [''driftmgr'', ''--version''] 10 = Raises KeyboardInterrupt)"
  by (auto simp: validate_driftmgr_availability_def Let_def split: proc_outcome.splits py_exn.splits)

lemma avail_effect:
  assumes "availability_check os cmd s = (x, s1)"
  shows "test_summary s1 = test_summary s \<and> tui s1 = tui s \<and>
         simulation_results s1 = simulation_results s \<and>
         (\<forall>e. x = Inl e \<longrightarrow>
            e = KeyboardInterrupt \<and>
            subprocess_run os (length (launches s)) [''driftmgr'', ''--version''] 10 = Raises KeyboardInterrupt)"
proof (cases "is_driftmgr cmd \<and> driftmgr_available s = None")
  case False
  with assms show ?thesis
    by (auto simp: availability_check_def split: if_splits option.splits)
next
  case True
  obtain y s2 where p: "validate_driftmgr_availability os s = (y, s2)"
    by (cases "validate_driftmgr_availability os s")
  from probe_effect[OF p] True assms p show ?thesis
    by (auto simp: availability_check_def split: sum.splits)
qed






subsection \<open>Counting the probe\<close>

lemma probe_step_refl: "probe_step k s b s"
  by (auto simp: probe_step_def tracked_def)

lemma probe_step_trans:
  assumes "probe_step k s True s1" and "probe_step k s1 b s2"
  shows "probe_step k s b s2"
  using assms by (auto simp: probe_step_def)

lemma finish_command_frame:
  assumes "finish_command os rd feature b s = (x, s')"
  shows "launches s' = launches s \<and> driftmgr_available s' = driftmgr_available s \<and>
         report_file s' = report_file s"
  using assms
  by (auto simp: finish_command_def Let_def case_prod_beta split: sum.splits option.splits prod.splits)

lemma avail_report_file:
  "availability_check os cmd s = (x, s1) \<Longrightarrow> report_file s1 = report_file s"
  by (auto simp: availability_check_def validate_driftmgr_availability_def Let_def
      split: if_splits option.splits sum.splits proc_outcome.splits py_exn.splits)

lemma avail_probe:
  assumes "tracked k s" and "availability_check os cmd s = (x, s1)"
  shows "probe_count s \<le> probe_count s1 \<and> probe_count s1 \<le> k + 1 \<and>
         ((\<exists>b. x = Inr b) \<longrightarrow> tracked k s1) \<and>
         (is_driftmgr cmd \<longrightarrow> probe_count s1 = k + 1) \<and>
         (\<forall>b. driftmgr_available s = Some b \<longrightarrow> s1 = s \<and> (is_driftmgr cmd \<longrightarrow> x = Inr b))"
proof (cases "is_driftmgr cmd")
  case False
  with assms show ?thesis
    by (auto simp: availability_check_def tracked_def)
next
  case True
  show ?thesis
  proof (cases "driftmgr_available s")
    case (Some b)
    with True assms show ?thesis
      by (auto simp: availability_check_def tracked_def)
  next
    case None
    obtain y s2 where p: "validate_driftmgr_availability os s = (y, s2)"
      by (cases "validate_driftmgr_availability os s")
    from probe_effect[OF p] have s2: "s2 = s\<lparr>launches := launches s @ [Probe]\<rparr>" by simp
    from None assms(1) have k: "probe_count s = k" by (simp add: tracked_def)
    from True None p assms(2) s2 k show ?thesis
      by (cases y) (auto simp: availability_check_def tracked_def probe_count_def)
  qed
qed

lemma try_body_frame:
  assumes chk: "availability_check os cmd s = (g, s1)" and body: "try_body os cmd timeout feature s = (x, s')"
  shows "probe_count s' = probe_count s1 \<and> driftmgr_available s' = driftmgr_available s1 \<and>
         report_file s' = report_file s1 \<and> ((\<exists>r. x = Inr r) \<longrightarrow> (\<exists>b. g = Inr b))"
proof (cases g)
  case (Inl e)
  with chk body show ?thesis
    by (auto simp: try_body_def Let_def)
next
  case (Inr b)
  show ?thesis
  proof (cases b)
    case False
    with Inr chk body
    have "\<exists>rd. finish_command os rd feature True s1 = (x, s')"
      by (auto simp: try_body_def Let_def)
    with finish_command_frame Inr show ?thesis
      by (fastforce simp: probe_count_def)
  next
    case True
    let ?s2 = "s1\<lparr>launches := launches s1 @ [Launch cmd]\<rparr>"
    show ?thesis
    proof (cases "subprocess_run os (length (launches s1)) cmd timeout")
      case (Raises e)
      with True Inr chk body have "s' = ?s2"
        by (simp add: try_body_def Let_def)
      with Inr show ?thesis by (simp add: probe_count_def)
    next
      case (Completed rc so se)
      with True Inr chk body
      have "\<exists>rd. finish_command os rd feature True ?s2 = (x, s')"
        by (auto simp: try_body_def Let_def)
      then obtain rd where "finish_command os rd feature True ?s2 = (x, s')" by blast
      from finish_command_frame[OF this] Inr show ?thesis
        by (simp add: probe_count_def)
    qed
  qed
qed

lemma run_command_frame:
  assumes chk: "availability_check os cmd s = (g, s1)" and run: "run_command os cmd timeout feature s = (x, s')"
  shows "probe_count s' = probe_count s1 \<and> driftmgr_available s' = driftmgr_available s1 \<and>
         report_file s' = report_file s1 \<and> ((\<exists>r. x = Inr r) \<longrightarrow> (\<exists>b. g = Inr b))"
proof -
  obtain y sb where body: "try_body os cmd timeout feature s = (y, sb)"
    by (cases "try_body os cmd timeout feature s")
  note B = try_body_frame[OF chk body]
  show ?thesis
  proof (cases y)
    case (Inr r)
    with body run B show ?thesis by (simp add: run_command_def)
  next
    case (Inl e)
    show ?thesis
    proof (cases "except_result (join_sp cmd) timeout e")
      case None
      with Inl body run B show ?thesis by (simp add: run_command_def)
    next
      case (Some rd)
      with Inl body run have fin: "finish_command os rd feature False sb = (x, s')"
        by (simp add: run_command_def)
      from Some have ne: "e \<noteq> KeyboardInterrupt" by (cases e) simp_all
      have "\<exists>b. g = Inr b"
      proof (cases g)
        case (Inl e')
        with chk body \<open>y = Inl e\<close> have "e = e'"
          by (simp add: try_body_def Let_def)
        with avail_effect[OF chk] Inl ne show ?thesis by simp
      next
        case (Inr b)
        then show ?thesis by blast
      qed
      with finish_command_frame[OF fin] B show ?thesis
        by (simp add: probe_count_def)
    qed
  qed
qed

lemma run_command_probe:
  assumes run: "run_command os cmd timeout feature s = (x, s')"
  shows "probe_step k s (\<exists>r. x = Inr r) s' \<and>
         (tracked k s \<and> is_driftmgr cmd \<longrightarrow> probe_count s' = k + 1)"
proof -
  obtain g s1 where chk: "availability_check os cmd s = (g, s1)"
    by (cases "availability_check os cmd s")
  note F = run_command_frame[OF chk run] avail_report_file[OF chk]
  show ?thesis
  proof (cases "tracked k s")
    case False
    with F show ?thesis by (simp add: probe_step_def)
  next
    case True
    from avail_probe[OF True chk] F True show ?thesis
      by (auto simp: probe_step_def tracked_def)
  qed
qed



lemma tracked_results [simp]: "tracked k (s\<lparr>simulation_results := r\<rparr>) = tracked k s"
  by (simp add: tracked_def probe_count_def)

lemma probe_step_results [simp]:
  "probe_step k (s\<lparr>simulation_results := r\<rparr>) b s' = probe_step k s b s'"
  by (simp add: probe_step_def probe_count_def)

lemma run_commands_probe:
  assumes "run_commands os cmds timeout feature s = (x, s')"
  shows "probe_step k s (x = None) s' \<and>
         (tracked k s \<and> cmds \<noteq> [] \<and> is_driftmgr (hd cmds) \<longrightarrow> probe_count s' = k + 1)"
  using assms
proof (induction cmds arbitrary: s)
  case Nil
  then show ?case by (simp add: probe_step_refl)
next
  case (Cons c cs)
  obtain y s1 where rc: "run_command os c timeout feature s = (y, s1)"
    by (cases "run_command os c timeout feature s")
  note R = run_command_probe[OF rc, of k]
  show ?case
  proof (cases y)
    case (Inl e)
    with rc Cons.prems R show ?thesis by auto
  next
    case (Inr r)
    let ?s2 = "s1\<lparr>simulation_results :=
                 simulation_results s1 @ [\<lparr>rec_feature = feature, rec_result = r\<rparr>]\<rparr>"
    from Inr rc Cons.prems have rest: "run_commands os cs timeout feature ?s2 = (x, s')"
      by simp
    from Cons.IH[OF rest] have I: "probe_step k s1 (x = None) s'" by simp
    from R Inr have R1: "probe_step k s True s1" by simp
    have step: "probe_step k s (x = None) s'"
      by (rule probe_step_trans[OF R1 I])
    have "probe_count s' = k + 1" if "tracked k s" and "is_driftmgr c"
    proof -
      from R that have a: "probe_count s1 = k + 1" by simp
      from R1 that(1) have "tracked k s1" by (simp add: probe_step_def)
      with I have "probe_count s1 \<le> probe_count s'" "probe_count s' \<le> k + 1"
        by (simp_all add: probe_step_def)
      with a show ?thesis by simp
    qed
    with step show ?thesis by simp
  qed
qed

lemma feature_progress_frame:
  assumes "feature_progress os i name s = (e, s')"
  shows "launches s' = launches s \<and> driftmgr_available s' = driftmgr_available s \<and>
         report_file s' = report_file s"
  using assms by (auto simp: feature_progress_def case_prod_beta)

lemma feature_progress_probe:
  assumes "feature_progress os i name s = (e, s')"
  shows "probe_step k s b s'"
  using feature_progress_frame[OF assms]
  by (auto simp: probe_step_def tracked_def probe_count_def)

lemma run_phase_probe:
  assumes "run_phase os i name cmds timeout feature s = (x, s')"
  shows "probe_step k s (x = None) s'"
proof -
  obtain e s1 where fp: "feature_progress os i name s = (e, s1)"
    by (cases "feature_progress os i name s")
  show ?thesis
  proof (cases e)
    case (Some ex)
    with fp assms feature_progress_probe[OF fp] show ?thesis
      by (auto simp: run_phase_def)
  next
    case None
    with fp assms have "run_commands os cmds timeout feature s1 = (x, s')"
      by (simp add: run_phase_def)
    from run_commands_probe[OF this, of k] feature_progress_probe[OF fp, of k True]
    show ?thesis by (blast intro: probe_step_trans)
  qed
qed

lemma discover_providers_probe:
  assumes "discover_providers os ps s = (x, s')"
  shows "probe_step k s (x = None) s'"
  using assms
proof (induction ps arbitrary: s)
  case Nil
  then show ?case by (simp add: probe_step_refl)
next
  case (Cons p ps)
  note IH = Cons.IH and prems = Cons.prems
  obtain provider regions where p: "p = (provider, regions)" by (cases p)
  show ?case
  proof (cases "regions = []")
    case True
    with p IH prems show ?thesis by simp
  next
    case False
    let ?sel = "random_sample os regions (random_randint os 1 (min 3 (int (length regions))))"
    show ?thesis
    proof (cases ?sel)
      case Nil
      with False p prems show ?thesis
        by (auto simp: Let_def probe_step_refl)
    next
      case (Cons r0 others)
      note sel = this
      obtain y s1 where rc: "run_commands os (discovery_patterns provider r0 ?sel) 120
                               ''resource_discovery'' s = (y, s1)"
        by (cases "run_commands os (discovery_patterns provider r0 ?sel) 120 ''resource_discovery'' s")
      from run_commands_probe[OF rc, of k] have R: "probe_step k s (y = None) s1" by simp
      show ?thesis
      proof (cases y)
        case (Some e)
        with rc sel False p prems R show ?thesis
          by (auto simp: Let_def)
      next
        case None
        with rc sel False p prems have rest: "discover_providers os ps s1 = (x, s')"
          by (simp add: Let_def)
        from R None have R1: "probe_step k s True s1" by simp
        from probe_step_trans[OF R1 IH[OF rest]] show ?thesis .
      qed
    qed
  qed
qed

lemma in_sequence_probe:
  assumes "\<forall>step\<in>set steps. \<forall>s x s'. step s = (x, s') \<longrightarrow> probe_step k s (x = None) s'"
    and "in_sequence steps s = (x, s')"
  shows "probe_step k s (x = None) s'"
  using assms
proof (induction steps arbitrary: s)
  case Nil
  then show ?case by (simp add: probe_step_refl)
next
  case (Cons st steps)
  from Cons.prems(1)
  have first: "\<forall>s x s'. st s = (x, s') \<longrightarrow> probe_step k s (x = None) s'"
    and others: "\<forall>step\<in>set steps. \<forall>s x s'. step s = (x, s') \<longrightarrow> probe_step k s (x = None) s'"
    by simp_all
  obtain y s1 where st: "st s = (y, s1)" by (cases "st s")
  from first st have R: "probe_step k s (y = None) s1" by blast
  show ?case
  proof (cases y)
    case (Some e)
    with st Cons.prems(2) R show ?thesis by auto
  next
    case None
    with st Cons.prems(2) have rest: "in_sequence steps s1 = (x, s')" by simp
    from R None have R1: "probe_step k s True s1" by simp
    from probe_step_trans[OF R1 Cons.IH[OF others rest]] show ?thesis .
  qed
qed

lemma simulation_phases_probe:
  "\<forall>step\<in>set (simulation_phases os). \<forall>s x s'. step s = (x, s') \<longrightarrow> probe_step k s (x = None) s'"
proof (intro ballI allI impI)
  fix step s x s'
  assume assms: "step \<in> set (simulation_phases os)" "step s = (x, s')"
  have disc: "probe_step k s (x = None) s'"
    if "simulate_discovery_with_random_regions os s = (x, s')"
  proof -
    obtain e s1 where fp: "feature_progress os 2 ''Resource Discovery'' s = (e, s1)"
      by (cases "feature_progress os 2 ''Resource Discovery'' s")
    show ?thesis
    proof (cases e)
      case (Some ex)
      with fp that feature_progress_probe[OF fp] show ?thesis
        by (auto simp: simulate_discovery_with_random_regions_def)
    next
      case None
      with fp that
      have "discover_providers os
              [(''aws'', aws_regions s1), (''azure'', azure_regions s1), (''gcp'', gcp_regions s1),
               (''digitalocean'', digitalocean_regions s1)] s1 = (x, s')"
        by (simp add: simulate_discovery_with_random_regions_def del: discover_providers.simps)
      from discover_providers_probe[OF this, of k] feature_progress_probe[OF fp, of k True]
      show ?thesis by (blast intro: probe_step_trans)
    qed
  qed
  from assms disc show "probe_step k s (x = None) s'"
    by (auto simp: simulation_phases_def simulate_credential_auto_detection_def
        simulate_state_file_detection_def simulate_analysis_features_def
        simulate_monitoring_features_def simulate_remediation_features_def
        simulate_configuration_features_def simulate_reporting_features_def
        simulate_advanced_features_def simulate_error_handling_def
        simulate_interactive_mode_def intro: run_phase_probe)
qed

lemma initialize_simulation_ready:
  "n \<noteq> 0 \<Longrightarrow> tui_ready (initialize_simulation t n x)"
  by (simp add: initialize_simulation_def tui_ready_def feature_steps_def add_step_def
      LoadingBar_init_def)

lemma start_tui_frame:
  "launches (start_tui os s) = launches s \<and>
   driftmgr_available (start_tui os s) = driftmgr_available s \<and>
   report_file (start_tui os s) = report_file s \<and>
   test_summary (start_tui os s) = test_summary s \<and>
   simulation_results (start_tui os s) = simulation_results s \<and>
   tui_ready (tui (start_tui os s))"
  by (simp add: start_tui_def planned_commands_def initialize_simulation_ready)


lemma run_phases_probe:
  assumes "run_phases os s = (x, s')"
  shows "probe_step k s (x = None) s'"
  using in_sequence_probe[OF simulation_phases_probe] assms
  by (simp add: run_phases_def)










section \<open>Properties of the orchestrator\<close>

text \<open>
  The claim C6 fails: when the operator interrupts the second command of the first phase,
  one record and one counted test exist, and \<open>run_full_simulation\<close> returns \<open>None\<close> without
  writing a report.
\<close>

theorem interrupt_discards_report_counterexample:
  "fst (run_full_simulation interrupt_second_command
          (DriftMgrUserSimulator_init interrupt_second_command)) = None \<and>
   length (simulation_results (snd (run_full_simulation interrupt_second_command
          (DriftMgrUserSimulator_init interrupt_second_command)))) = 1 \<and>
   total_tests (test_summary (snd (run_full_simulation interrupt_second_command
          (DriftMgrUserSimulator_init interrupt_second_command)))) = 1 \<and>
   report_file (snd (run_full_simulation interrupt_second_command
          (DriftMgrUserSimulator_init interrupt_second_command))) = None"
  by code_simp

text \<open>
  C6, amended. When the operator's interruption ends the phases, \<open>run_full_simulation\<close>
  returns \<open>None\<close>. Nothing runs after the interruption: the final state is the state in which
  the interruption arrived, with the records and statistics gathered so far, and the report
  file is as it was before the session.
\<close>

theorem interrupted_session_returns_none:
  assumes "fst (run_phases os (start_tui os s)) = Some KeyboardInterrupt"
  shows "fst (run_full_simulation os s) = None \<and>
         snd (run_full_simulation os s) = snd (run_phases os (start_tui os s)) \<and>
         report_file (snd (run_full_simulation os s)) = report_file s"
proof -
  obtain s1 where ph: "run_phases os (start_tui os s) = (Some KeyboardInterrupt, s1)"
    using assms by (cases "run_phases os (start_tui os s)") simp
  from run_phases_probe[OF ph, of 0] start_tui_frame[of os s]
  have "report_file s1 = report_file s" by (simp add: probe_step_def)
  with ph show ?thesis by (simp add: run_full_simulation_def)
qed

theorem interrupted_session_returns_none_witness:
  "fst (run_phases interrupt_second_command
          (start_tui interrupt_second_command
             (DriftMgrUserSimulator_init interrupt_second_command))) = Some KeyboardInterrupt \<and>
   fst (run_full_simulation interrupt_second_command
          (DriftMgrUserSimulator_init interrupt_second_command)) = None \<and>
   report_file (snd (run_full_simulation interrupt_second_command
          (DriftMgrUserSimulator_init interrupt_second_command))) = None"
proof -
  have h: "fst (run_phases interrupt_second_command
                  (start_tui interrupt_second_command
                     (DriftMgrUserSimulator_init interrupt_second_command))) =
           Some KeyboardInterrupt"
    by code_simp
  have r: "report_file (DriftMgrUserSimulator_init interrupt_second_command) = None"
    by (simp add: DriftMgrUserSimulator_init_def split: prod.splits)
  note T = interrupted_session_returns_none[OF h]
  from T have a: "fst (run_full_simulation interrupt_second_command
                         (DriftMgrUserSimulator_init interrupt_second_command)) = None"
    by (rule conjunct1)
  from T[THEN conjunct2, THEN conjunct2] r have b: "report_file (snd (run_full_simulation interrupt_second_command
                   (DriftMgrUserSimulator_init interrupt_second_command))) = None"
    by (simp only:)
  from h a b show ?thesis by (intro conjI)
qed

text \<open>
  C8. The bar has 11 steps, one per feature, and \<open>update_command_progress\<close> hands it the
  percentage of completed commands as the step. After the 97 commands of the first two
  phases the bar shows 100; the feature update that opens the third phase sets it to step 2
  of 11 and the bar shows 18.
\<close>

theorem progress_percentage_drops:
  "drop 97 (shown_percentages
              (tui_calls (\<lambda>x. x) 0 first_phases_calls
                 (initialize_simulation 0 planned_commands SimulationTUI_init))) =
   [100, 100, 18]"
  by code_simp

end
